theory Spec2Isabelle
  imports Complex_Main
begin

section \<open>Data model of the barbershop booking backend (backend/server.py)\<close>

text \<open>
  Instants are naive datetimes at the resolution of the document store (BSON dates:
  whole milliseconds), counted from 1970-01-01T00:00; a calendar date is a number of days
  from 1970-01-01. \<open>timedelta(minutes=n)\<close> is \<open>n * 60000\<close> milliseconds. Prices are the
  floats of the source; they are only ever copied, never computed with.
\<close>

type_synonym datetime = int
type_synonym date = int
type_synonym oid = string

definition timedelta_minutes :: "int \<Rightarrow> int" where
  "timedelta_minutes n = n * 60000"

definition combine :: "date \<Rightarrow> int \<Rightarrow> datetime" where
  "combine d t = d * 86400000 + t"

text \<open>
  \<open>bson.ObjectId(s)\<close> accepts a string of 24 hexadecimal digits and raises \<open>InvalidId\<close>
  on anything else; \<open>str\<close> of an ObjectId is its lower-case hexadecimal form, which is how
  an \<open>oid\<close> is represented here.
\<close>

definition hexdigits :: string where
  "hexdigits = ''0123456789abcdefABCDEF''"

definition hex_lower :: "char \<Rightarrow> char" where
  "hex_lower c =
     (if c = CHR ''A'' then CHR ''a'' else if c = CHR ''B'' then CHR ''b''
      else if c = CHR ''C'' then CHR ''c'' else if c = CHR ''D'' then CHR ''d''
      else if c = CHR ''E'' then CHR ''e'' else if c = CHR ''F'' then CHR ''f'' else c)"

definition ObjectId :: "string \<Rightarrow> oid option" where
  "ObjectId s =
     (if length s = 24 \<and> list_all (\<lambda>c. c \<in> set hexdigits) s
      then Some (map hex_lower s) else None)"

text \<open>class UserRole and class AppointmentStatus: string constants.\<close>

abbreviation ADMIN :: string where "ADMIN \<equiv> ''admin''"
abbreviation BARBER :: string where "BARBER \<equiv> ''barber''"
abbreviation CLIENT :: string where "CLIENT \<equiv> ''client''"

abbreviation PENDING :: string where "PENDING \<equiv> ''pending''"
abbreviation CONFIRMED :: string where "CONFIRMED \<equiv> ''confirmed''"
abbreviation COMPLETED :: string where "COMPLETED \<equiv> ''completed''"
abbreviation CANCELLED :: string where "CANCELLED \<equiv> ''cancelled''"

text \<open>The authenticated user that \<open>get_current_user\<close> hands to a route.\<close>

record user =
  u_id :: oid
  u_role :: string

text \<open>
  Documents of the collections \<open>db.barbers\<close>, \<open>db.services\<close> and \<open>db.appointments\<close>.
  A field that a document may lack is an option. A schedule maps a lower-case English
  weekday name to a dict with the keys \<open>start\<close> and \<open>end\<close> (strings \<open>HH:MM\<close>); a
  dict is held as the list of its items and read with \<open>map_of\<close>.
\<close>

record barber =
  b_id :: oid
  b_user_id :: string
  b_schedule :: "(string \<times> (string \<times> string) list) list option"

record service =
  s_id :: oid
  s_name :: string
  s_description :: "string option"
  s_duration_minutes :: int
  s_price :: real
  s_category :: "string option"
  s_active :: bool
  s_created_at :: datetime
  s_updated_at :: "datetime option"

text \<open>
  An appointment document holds what \<open>create_appointment\<close> inserts: the fields of
  \<open>AppointmentCreate\<close>, then \<open>total_price\<close>, \<open>created_at\<close> and \<open>status\<close>;
  \<open>update_appointment_status\<close> adds \<open>updated_at\<close>. The conflict query of
  \<open>create_appointment\<close> reads a field \<open>duration_minutes\<close> of the appointment document;
  the store is schemaless, so the field is modelled as one a document may or may not have
  (\<open>None\<close>: the document has no such field). The flags other routes set
  (\<open>reviewed\<close>, \<open>reminder_sent\<close>, \<open>review_request_sent\<close>) play no part in scheduling
  and are left out.
\<close>

record appointment =
  a_id :: oid
  client_id :: string
  barber_id :: string
  service_id :: string
  scheduled_at :: datetime
  a_notes :: "string option"
  total_price :: real
  created_at :: datetime
  status :: string
  updated_at :: "datetime option"
  duration_minutes :: "int option"

text \<open>class AppointmentCreate, the body of POST /api/appointments.\<close>

record appointment_create =
  ac_client_id :: string
  ac_barber_id :: string
  ac_service_id :: string
  ac_scheduled_at :: datetime
  ac_notes :: "string option"

text \<open>
  class ServiceCreate, the body of PUT /api/services/{id}. \<open>dict(exclude_unset=True)\<close>
  keeps an optional field only when the request set it (possibly to null), hence the
  outer option on \<open>description\<close> and \<open>category\<close>.
\<close>

record service_create =
  sc_name :: string
  sc_description :: "string option option"
  sc_duration_minutes :: int
  sc_price :: real
  sc_category :: "string option option"

text \<open>The database: each collection in its natural (insertion) order.\<close>

record db =
  barbers :: "barber list"
  services :: "service list"
  appointments :: "appointment list"

text \<open>
  Every raise of the routes modelled here. A route returns the status code the client
  sees together with the exception that caused it: the routes wrap their body in
  \<open>try ... except Exception as e: raise HTTPException(status_code=400, detail=str(e))\<close>,
  and HTTPException is itself an Exception, so a 404 or 403 raised inside the body
  reaches the client as a 400.
\<close>

datatype error =
    ServiceNotFound
  | BarberNotFound
  | SchedulingConflict
  | StatusRequired
  | InvalidStatus
  | AppointmentNotFound
  | Forbidden
  | AdminOnly
  | InvalidId
  | DuplicateKeyError
  | KeyError
  | ValueError

type_synonym http_error = "nat \<times> error"

definition except_400 :: "error \<Rightarrow> http_error" where
  "except_400 e = (400, e)"

section \<open>The conflict query of create_appointment\<close>

text \<open>
  The filter passed to \<open>db.appointments.find_one\<close> (server.py, lines 396-408):
  \<^verbatim>\<open>
  {"barber_id": barber_id,
   "scheduled_at": {"$lt": appointment_end},
   "status": {"$in": [PENDING, CONFIRMED]},
   "$expr": {"$gt": [{"$add": ["$scheduled_at", {"$multiply": ["$duration_minutes", 60000]}]},
                     scheduled_at]}}
  \<close>
  MongoDB's aggregation arithmetic yields null as soon as an operand is null or a missing
  field, and \<open>$gt\<close> compares by the BSON order, in which null sorts before every date. A
  null is \<open>None\<close> here.
\<close>

definition mongo_multiply :: "int option \<Rightarrow> int \<Rightarrow> int option" where
  "mongo_multiply x k = (case x of None \<Rightarrow> None | Some n \<Rightarrow> Some (n * k))"

definition mongo_add :: "datetime \<Rightarrow> int option \<Rightarrow> datetime option" where
  "mongo_add d x = (case x of None \<Rightarrow> None | Some n \<Rightarrow> Some (d + n))"

definition mongo_gt :: "datetime option \<Rightarrow> datetime \<Rightarrow> bool" where
  "mongo_gt x d = (case x of None \<Rightarrow> False | Some e \<Rightarrow> e > d)"

definition conflict_filter :: "string \<Rightarrow> datetime \<Rightarrow> datetime \<Rightarrow> appointment \<Rightarrow> bool" where
  "conflict_filter bid sched appointment_end doc \<longleftrightarrow>
     barber_id doc = bid \<and>
     scheduled_at doc < appointment_end \<and>
     status doc \<in> set [PENDING, CONFIRMED] \<and>
     mongo_gt (mongo_add (scheduled_at doc) (mongo_multiply (duration_minutes doc) 60000)) sched"

section \<open>create_appointment\<close>

text \<open>
  POST /api/appointments (server.py, lines 380-425). \<open>new_id\<close> is the ObjectId the driver
  generates for the inserted document; the store refuses an \<open>_id\<close> it already holds.
  \<open>now\<close> is \<open>datetime.utcnow()\<close>. The function returns the response and the database
  after the call.
\<close>

definition create_appointment ::
  "db \<Rightarrow> appointment_create \<Rightarrow> oid \<Rightarrow> datetime \<Rightarrow> (http_error + appointment) \<times> db" where
  "create_appointment d appointment_data new_id now =
     (case ObjectId (ac_service_id appointment_data) of
        None \<Rightarrow> (Inl (except_400 InvalidId), d)
      | Some sid \<Rightarrow>
     (case find (\<lambda>s. s_id s = sid) (services d) of
        None \<Rightarrow> (Inl (except_400 ServiceNotFound), d)
      | Some service \<Rightarrow>
     (case ObjectId (ac_barber_id appointment_data) of
        None \<Rightarrow> (Inl (except_400 InvalidId), d)
      | Some bid \<Rightarrow>
     (case find (\<lambda>b. b_id b = bid) (barbers d) of
        None \<Rightarrow> (Inl (except_400 BarberNotFound), d)
      | Some barber \<Rightarrow>
     (let appointment_end =
            ac_scheduled_at appointment_data + timedelta_minutes (s_duration_minutes service);
          existing_appointment =
            find (conflict_filter (ac_barber_id appointment_data)
                    (ac_scheduled_at appointment_data) appointment_end) (appointments d)
      in case existing_appointment of
           Some _ \<Rightarrow> (Inl (except_400 SchedulingConflict), d)
         | None \<Rightarrow>
             (let appointment_dict =
                    \<lparr> a_id = new_id,
                      client_id = ac_client_id appointment_data,
                      barber_id = ac_barber_id appointment_data,
                      service_id = ac_service_id appointment_data,
                      scheduled_at = ac_scheduled_at appointment_data,
                      a_notes = ac_notes appointment_data,
                      total_price = s_price service,
                      created_at = now,
                      status = PENDING,
                      updated_at = None,
                      duration_minutes = None \<rparr>
              in if new_id \<in> set (map a_id (appointments d))
                 then (Inl (except_400 DuplicateKeyError), d)
                 else (Inr appointment_dict,
                       d\<lparr>appointments := appointments d @ [appointment_dict]\<rparr>)))))))"

section \<open>update_appointment_status\<close>

text \<open>
  The JSON body of PUT /api/appointments/{id}/status is a plain dict; the value under
  \<open>status\<close> can be any JSON value. \<open>truthy\<close> is Python's truth value of it
  (\<open>if not status\<close>).
\<close>

datatype jvalue =
    JNull
  | JBool bool
  | JNum int
  | JStr string
  | JList "jvalue list"
  | JDict "(string \<times> jvalue) list"

fun truthy :: "jvalue \<Rightarrow> bool" where
  "truthy JNull = False"
| "truthy (JBool b) = b"
| "truthy (JNum n) = (n \<noteq> 0)"
| "truthy (JStr s) = (s \<noteq> [])"
| "truthy (JList xs) = (xs \<noteq> [])"
| "truthy (JDict kvs) = (kvs \<noteq> [])"

definition valid_statuses :: "string list" where
  "valid_statuses = [PENDING, CONFIRMED, COMPLETED, CANCELLED]"

text \<open>
  \<open>update_one(filter, {"$set": ...})\<close> changes the first document that matches and
  reports how many matched (0 or 1).
\<close>

fun update_first :: "('a \<Rightarrow> bool) \<Rightarrow> ('a \<Rightarrow> 'a) \<Rightarrow> 'a list \<Rightarrow> 'a list" where
  "update_first P f [] = []"
| "update_first P f (x # xs) = (if P x then f x # xs else x # update_first P f xs)"

definition matched_count :: "('a \<Rightarrow> bool) \<Rightarrow> 'a list \<Rightarrow> nat" where
  "matched_count P xs = (case find P xs of None \<Rightarrow> 0 | Some _ \<Rightarrow> 1)"

text \<open>Lines 484-493: only admin, the owning client or the assigned barber may update.\<close>

definition can_update :: "db \<Rightarrow> user \<Rightarrow> appointment \<Rightarrow> bool" where
  "can_update d current_user appointment =
     (if u_role current_user = ADMIN then True
      else if u_role current_user = CLIENT \<and> client_id appointment = u_id current_user then True
      else if u_role current_user = BARBER then
        (case find (\<lambda>b. b_user_id b = u_id current_user) (barbers d) of
           None \<Rightarrow> False
         | Some barber \<Rightarrow> barber_id appointment = b_id barber)
      else False)"

definition set_status :: "string \<Rightarrow> datetime \<Rightarrow> appointment \<Rightarrow> appointment" where
  "set_status s now a = a\<lparr>status := s, updated_at := Some now\<rparr>"

text \<open>
  PUT /api/appointments/{id}/status (lines 467-509). A value that is not a string is not
  \<open>in valid_statuses\<close>.
\<close>

definition update_appointment_status ::
  "db \<Rightarrow> string \<Rightarrow> (string \<times> jvalue) list \<Rightarrow> user \<Rightarrow> datetime \<Rightarrow> (http_error + string) \<times> db" where
  "update_appointment_status d appointment_id status_data current_user now =
     (case map_of status_data ''status'' of
        None \<Rightarrow> (Inl (except_400 StatusRequired), d)
      | Some st \<Rightarrow>
     (if \<not> truthy st then (Inl (except_400 StatusRequired), d)
      else (case st of
        JStr s \<Rightarrow>
          (if s \<notin> set valid_statuses then (Inl (except_400 InvalidStatus), d)
           else (case ObjectId appointment_id of
              None \<Rightarrow> (Inl (except_400 InvalidId), d)
            | Some k \<Rightarrow>
           (case find (\<lambda>a. a_id a = k) (appointments d) of
              None \<Rightarrow> (Inl (except_400 AppointmentNotFound), d)
            | Some appointment \<Rightarrow>
           (if \<not> can_update d current_user appointment
            then (Inl (except_400 Forbidden), d)
            else if matched_count (\<lambda>a. a_id a = k) (appointments d) = 0
            then (Inl (except_400 AppointmentNotFound), d)
            else (Inr (''Estado de cita actualizado a '' @ s),
                  d\<lparr>appointments :=
                      update_first (\<lambda>a. a_id a = k) (set_status s now) (appointments d)\<rparr>)))))
      | _ \<Rightarrow> (Inl (except_400 InvalidStatus), d))))"

section \<open>update_service\<close>

text \<open>
  PUT /api/services/{id} (lines 358-377): the role check is outside the \<open>try\<close>, so its
  403 reaches the client unchanged. \<open>$set\<close> writes the fields the request set and
  \<open>updated_at\<close>.
\<close>

definition set_service :: "service_create \<Rightarrow> datetime \<Rightarrow> service \<Rightarrow> service" where
  "set_service service_data now s =
     s\<lparr> s_name := sc_name service_data,
        s_description :=
          (case sc_description service_data of None \<Rightarrow> s_description s | Some v \<Rightarrow> v),
        s_duration_minutes := sc_duration_minutes service_data,
        s_price := sc_price service_data,
        s_category :=
          (case sc_category service_data of None \<Rightarrow> s_category s | Some v \<Rightarrow> v),
        s_updated_at := Some now \<rparr>"

definition update_service ::
  "db \<Rightarrow> string \<Rightarrow> service_create \<Rightarrow> user \<Rightarrow> datetime \<Rightarrow> (http_error + string) \<times> db" where
  "update_service d service_id' service_data current_user now =
     (if u_role current_user \<noteq> ADMIN then (Inl (403, AdminOnly), d)
      else (case ObjectId service_id' of
         None \<Rightarrow> (Inl (except_400 InvalidId), d)
       | Some k \<Rightarrow>
           (let d' = d\<lparr>services :=
                        update_first (\<lambda>s. s_id s = k) (set_service service_data now) (services d)\<rparr>
            in if matched_count (\<lambda>s. s_id s = k) (services d) = 0
               then (Inl (except_400 ServiceNotFound), d')
               else (Inr ''Servicio actualizado exitosamente'', d'))))"

section \<open>get_barber_availability\<close>

text \<open>
  \<open>target_date.strftime("%A").lower()\<close>: 1970-01-01 was a Thursday, and Python's
  \<open>weekday()\<close> counts from Monday = 0.
\<close>

definition weekday :: "date \<Rightarrow> nat" where
  "weekday d = nat ((d + 3) mod 7)"

definition day_name :: "date \<Rightarrow> string" where
  "day_name d =
     [''monday'', ''tuesday'', ''wednesday'', ''thursday'', ''friday'', ''saturday'', ''sunday'']
       ! weekday d"

text \<open>
  \<open>datetime.strptime(s, "%H:%M").time()\<close>, as milliseconds after midnight. strptime
  matches the regular expression \<open>(2[0-3]|[0-1]\d|\d):([0-5]\d|\d)\<close> at the start of the
  string, alternatives tried in this order, and raises ValueError when there is no match
  or when text remains after the first match.
\<close>

definition is_digit :: "char \<Rightarrow> bool" where
  "is_digit c \<longleftrightarrow> c \<in> set ''0123456789''"

definition digit_val :: "char \<Rightarrow> int" where
  "digit_val c = int (of_char c) - 48"

definition match_H :: "string \<Rightarrow> (int \<times> string) list" where
  "match_H s =
     (case s of
        [] \<Rightarrow> []
      | [c1] \<Rightarrow> (if is_digit c1 then [(digit_val c1, [])] else [])
      | c1 # c2 # r \<Rightarrow>
          (if c1 = CHR ''2'' \<and> c2 \<in> set ''0123'' then [(20 + digit_val c2, r)] else []) @
          (if c1 \<in> set ''01'' \<and> is_digit c2 then [(10 * digit_val c1 + digit_val c2, r)] else []) @
          (if is_digit c1 then [(digit_val c1, c2 # r)] else []))"

definition match_M :: "string \<Rightarrow> (int \<times> string) list" where
  "match_M s =
     (case s of
        [] \<Rightarrow> []
      | [c1] \<Rightarrow> (if is_digit c1 then [(digit_val c1, [])] else [])
      | c1 # c2 # r \<Rightarrow>
          (if c1 \<in> set ''012345'' \<and> is_digit c2 then [(10 * digit_val c1 + digit_val c2, r)] else []) @
          (if is_digit c1 then [(digit_val c1, c2 # r)] else []))"

definition strptime_HM :: "string \<Rightarrow> int option" where
  "strptime_HM s =
     (case concat (map (\<lambda>(h, r).
             (case r of
                c # r' \<Rightarrow> (if c = CHR '':'' then map (\<lambda>(m, rest). (h, m, rest)) (match_M r') else [])
              | [] \<Rightarrow> [])) (match_H s)) of
        [] \<Rightarrow> None
      | (h, m, rest) # _ \<Rightarrow> (if rest = [] then Some ((h * 60 + m) * 60000) else None))"

text \<open>Lines 551-555: the working window of the day, from the schedule entry.\<close>

definition day_window :: "(string \<times> string) list \<Rightarrow> date \<Rightarrow> error + (datetime \<times> datetime)" where
  "day_window day_schedule target_date =
     (case map_of day_schedule ''start'' of
        None \<Rightarrow> Inl KeyError
      | Some st \<Rightarrow>
     (case strptime_HM st of
        None \<Rightarrow> Inl ValueError
      | Some start_time \<Rightarrow>
     (case map_of day_schedule ''end'' of
        None \<Rightarrow> Inl KeyError
      | Some en \<Rightarrow>
     (case strptime_HM en of
        None \<Rightarrow> Inl ValueError
      | Some end_time \<Rightarrow>
          Inr (combine target_date start_time, combine target_date end_time)))))"

text \<open>
  Lines 535-539: the day-bounded query. \<open>datetime.max.time()\<close> is 23:59:59.999999, the
  last millisecond of the day at the store's resolution.
\<close>

definition start_of_day :: "date \<Rightarrow> datetime" where
  "start_of_day target_date = combine target_date 0"

definition end_of_day :: "date \<Rightarrow> datetime" where
  "end_of_day target_date = combine target_date 86399999"

definition day_filter :: "string \<Rightarrow> date \<Rightarrow> appointment \<Rightarrow> bool" where
  "day_filter bid target_date doc \<longleftrightarrow>
     barber_id doc = bid \<and>
     start_of_day target_date \<le> scheduled_at doc \<and> scheduled_at doc \<le> end_of_day target_date \<and>
     status doc \<in> set [PENDING, CONFIRMED]"

text \<open>
  Lines 540-547: the occupied interval of each fetched appointment, its duration resolved
  through the service it references, 60 minutes when that service is gone.
\<close>

definition service_duration :: "service list \<Rightarrow> oid \<Rightarrow> int" where
  "service_duration svcs sid =
     (case find (\<lambda>s. s_id s = sid) svcs of
        Some service \<Rightarrow> s_duration_minutes service
      | None \<Rightarrow> 60)"

fun fetch_intervals :: "service list \<Rightarrow> appointment list \<Rightarrow> error + (datetime \<times> datetime) list" where
  "fetch_intervals svcs [] = Inr []"
| "fetch_intervals svcs (a # as) =
     (case ObjectId (service_id a) of
        None \<Rightarrow> Inl InvalidId
      | Some sid \<Rightarrow>
          (let duration = service_duration svcs sid in
           case fetch_intervals svcs as of
             Inl e \<Rightarrow> Inl e
           | Inr ivs \<Rightarrow>
               Inr ((scheduled_at a, scheduled_at a + timedelta_minutes duration) # ivs)))"

text \<open>Lines 561-565: the inner loop with its \<open>break\<close>.\<close>

fun is_available :: "datetime \<Rightarrow> datetime \<Rightarrow> (datetime \<times> datetime) list \<Rightarrow> bool" where
  "is_available current_slot slot_end [] = True"
| "is_available current_slot slot_end ((st, en) # as) =
     (if current_slot < en \<and> slot_end > st then False
      else is_available current_slot slot_end as)"

text \<open>Lines 557-570: the \<open>while\<close> loop; the slots are returned in the order appended.\<close>

function slots_loop ::
  "(datetime \<times> datetime) list \<Rightarrow> datetime \<Rightarrow> datetime \<Rightarrow> datetime \<Rightarrow> datetime list" where
  "slots_loop appts now end_datetime current_slot =
     (if current_slot < end_datetime then
        (let slot_end = current_slot + timedelta_minutes 30 in
         (if is_available current_slot slot_end appts \<and> current_slot > now
          then [current_slot] else []) @
         slots_loop appts now end_datetime (current_slot + timedelta_minutes 30))
      else [])"
  by pat_completeness auto
termination
  by (relation "measure (\<lambda>(appts, now, e, c). nat (e - c))")
     (auto simp: timedelta_minutes_def)

declare slots_loop.simps [simp del]

text \<open>
  GET /api/barbers/{id}/availability (lines 512-574). The model starts from the parsed
  \<open>target_date\<close> (a malformed date string is a ValueError before anything is read) and
  returns the instants whose \<open>isoformat()\<close> the route sends. \<open>now\<close> is
  \<open>datetime.now()\<close>. The route writes nothing.
\<close>

definition get_barber_availability ::
  "db \<Rightarrow> string \<Rightarrow> date \<Rightarrow> datetime \<Rightarrow> http_error + datetime list" where
  "get_barber_availability d barber_id' target_date now =
     (case ObjectId barber_id' of
        None \<Rightarrow> Inl (except_400 InvalidId)
      | Some bid \<Rightarrow>
     (case find (\<lambda>b. b_id b = bid) (barbers d) of
        None \<Rightarrow> Inl (except_400 BarberNotFound)
      | Some barber \<Rightarrow>
     (case map_of (case b_schedule barber of None \<Rightarrow> [] | Some sch \<Rightarrow> sch)
             (day_name target_date) of
        None \<Rightarrow> Inr []
      | Some day_schedule \<Rightarrow>
     (if day_schedule = [] then Inr []
      else (case fetch_intervals (services d)
                   (filter (day_filter barber_id' target_date) (appointments d)) of
         Inl e \<Rightarrow> Inl (except_400 e)
       | Inr appts \<Rightarrow>
      (case day_window day_schedule target_date of
         Inl e \<Rightarrow> Inl (except_400 e)
       | Inr (current_slot, end_datetime) \<Rightarrow>
           Inr (slots_loop appts now end_datetime current_slot)))))))"

section \<open>Occupied intervals and the non-overlap invariant\<close>

text \<open>
  An appointment holds the calendar while its status is pending or confirmed. Its
  occupied interval is derived the way \<open>get_barber_availability\<close> derives it: from
  \<open>scheduled_at\<close> and the duration of the referenced service (60 minutes when the
  service cannot be resolved). Two intervals overlap by the half-open rule. Appointments
  belong to the same staff member when their \<open>barber_id\<close> fields are equal, which is
  how every query of the source selects them.
\<close>

definition is_active :: "appointment \<Rightarrow> bool" where
  "is_active a \<longleftrightarrow> status a \<in> set [PENDING, CONFIRMED]"

definition occupied_interval :: "service list \<Rightarrow> appointment \<Rightarrow> datetime \<times> datetime" where
  "occupied_interval svcs a =
     (let duration = (case ObjectId (service_id a) of
                        None \<Rightarrow> 60
                      | Some sid \<Rightarrow> service_duration svcs sid)
      in (scheduled_at a, scheduled_at a + timedelta_minutes duration))"

definition overlaps :: "datetime \<times> datetime \<Rightarrow> datetime \<times> datetime \<Rightarrow> bool" where
  "overlaps i j \<longleftrightarrow> fst i < snd j \<and> fst j < snd i"

definition clash :: "service list \<Rightarrow> appointment \<Rightarrow> appointment \<Rightarrow> bool" where
  "clash svcs a b \<longleftrightarrow>
     barber_id a = barber_id b \<and> is_active a \<and> is_active b \<and>
     overlaps (occupied_interval svcs a) (occupied_interval svcs b)"

fun pairwise_free :: "service list \<Rightarrow> appointment list \<Rightarrow> bool" where
  "pairwise_free svcs [] = True"
| "pairwise_free svcs (a # as) =
     (list_all (\<lambda>b. \<not> clash svcs a b) as \<and> pairwise_free svcs as)"

definition non_overlap :: "db \<Rightarrow> bool" where
  "non_overlap d = pairwise_free (services d) (appointments d)"

text \<open>Sequences of the two core operations; a failed operation leaves its database.\<close>

datatype operation =
    CreateAppointment appointment_create oid datetime
  | TransitionStatus string "(string \<times> jvalue) list" user datetime

fun apply_operation :: "db \<Rightarrow> operation \<Rightarrow> db" where
  "apply_operation d (CreateAppointment appointment_data new_id now) =
     snd (create_appointment d appointment_data new_id now)"
| "apply_operation d (TransitionStatus appointment_id status_data current_user now) =
     snd (update_appointment_status d appointment_id status_data current_user now)"

text \<open>
  A transition re-activates an appointment when it asks for pending or confirmed and the
  appointment it addresses is completed or cancelled.
\<close>

definition reactivates :: "db \<Rightarrow> string \<Rightarrow> (string \<times> jvalue) list \<Rightarrow> bool" where
  "reactivates d appointment_id status_data \<longleftrightarrow>
     map_of status_data ''status'' \<in> set [Some (JStr PENDING), Some (JStr CONFIRMED)] \<and>
     (case ObjectId appointment_id of
        None \<Rightarrow> False
      | Some k \<Rightarrow>
          (case find (\<lambda>a. a_id a = k) (appointments d) of
             None \<Rightarrow> False
           | Some a \<Rightarrow> \<not> is_active a))"

section \<open>A shop to run the routes on\<close>

text \<open>
  Two of the default services of \<open>startup_db\<close>, one barber working Mondays 09:00-17:00,
  and Monday 2024-09-30 (day 19996 after 1970-01-01).
\<close>

definition hm :: "date \<Rightarrow> int \<Rightarrow> int \<Rightarrow> datetime" where
  "hm d h m = combine d ((h * 60 + m) * 60000)"

definition monday :: date where
  "monday = 19996"

definition corte :: service where
  "corte = \<lparr> s_id = ''0000000000000000000000a1'', s_name = ''Corte de Cabello'',
             s_description = Some ''Corte tradicional masculino'', s_duration_minutes = 30,
             s_price = 25, s_category = Some ''corte'', s_active = True,
             s_created_at = 0, s_updated_at = None \<rparr>"

definition corte_barba :: service where
  "corte_barba = \<lparr> s_id = ''0000000000000000000000a2'', s_name = ''Corte + Barba'',
             s_description = Some ''Corte de cabello con arreglo de barba'',
             s_duration_minutes = 45, s_price = 35, s_category = Some ''completo'',
             s_active = True, s_created_at = 0, s_updated_at = None \<rparr>"

definition premium :: service where
  "premium = \<lparr> s_id = ''0000000000000000000000a4'', s_name = ''Paquete Premium'',
             s_description = Some ''Corte + Barba + Tratamiento'',
             s_duration_minutes = 60, s_price = 50, s_category = Some ''premium'',
             s_active = True, s_created_at = 0, s_updated_at = None \<rparr>"

definition the_barber :: barber where
  "the_barber = \<lparr> b_id = ''0000000000000000000000b1'', b_user_id = ''0000000000000000000000d1'',
             b_schedule = Some [(''monday'', [(''start'', ''09:00''), (''end'', ''17:00'')])] \<rparr>"

definition shop :: db where
  "shop = \<lparr> barbers = [the_barber], services = [corte, corte_barba, premium],
            appointments = [] \<rparr>"

definition admin :: user where
  "admin = \<lparr> u_id = ''0000000000000000000000d0'', u_role = ADMIN \<rparr>"

definition booking :: "string \<Rightarrow> datetime \<Rightarrow> appointment_create" where
  "booking sid t = \<lparr> ac_client_id = ''0000000000000000000000e1'',
             ac_barber_id = ''0000000000000000000000b1'', ac_service_id = sid,
             ac_scheduled_at = t, ac_notes = None \<rparr>"

definition stored :: "oid \<Rightarrow> string \<Rightarrow> datetime \<Rightarrow> real \<Rightarrow> string \<Rightarrow> appointment" where
  "stored k sid t p st = \<lparr> a_id = k, client_id = ''0000000000000000000000e1'',
             barber_id = ''0000000000000000000000b1'', service_id = sid, scheduled_at = t,
             a_notes = None, total_price = p, created_at = 0, status = st,
             updated_at = None, duration_minutes = None \<rparr>"

text \<open>The shop after one booking of a 30-minute cut at Monday 10:00.\<close>

definition booked_shop :: db where
  "booked_shop =
     snd (create_appointment shop (booking ''0000000000000000000000a1'' (hm monday 10 0))
            ''0000000000000000000000c1'' 0)"

text \<open>
  The shop with two pending back-to-back cuts at Monday 10:00 and 10:30 and a cancelled
  one at 10:00.
\<close>

definition busy_shop :: db where
  "busy_shop =
     shop\<lparr>appointments :=
            [stored ''0000000000000000000000c1'' ''0000000000000000000000a1''
               (hm monday 10 0) 25 PENDING,
             stored ''0000000000000000000000c2'' ''0000000000000000000000a1''
               (hm monday 10 30) 25 PENDING,
             stored ''0000000000000000000000c3'' ''0000000000000000000000a1''
               (hm monday 10 0) 25 CANCELLED]\<rparr>"

text \<open>Book, cancel, book the same time again, then confirm the cancelled one.\<close>

definition reconfirm_ops :: "operation list" where
  "reconfirm_ops =
     [CreateAppointment (booking ''0000000000000000000000a1'' (hm monday 10 0))
        ''0000000000000000000000c1'' 0,
      TransitionStatus ''0000000000000000000000c1'' [(''status'', JStr CANCELLED)] admin 1,
      CreateAppointment (booking ''0000000000000000000000a1'' (hm monday 10 0))
        ''0000000000000000000000c2'' 2,
      TransitionStatus ''0000000000000000000000c1'' [(''status'', JStr CONFIRMED)] admin 3]"

text \<open>Scenario B: a confirmed 45-minute appointment at Monday 10:00.\<close>

definition scenario_b_shop :: db where
  "scenario_b_shop =
     shop\<lparr>appointments :=
            [stored ''0000000000000000000000c1'' ''0000000000000000000000a2''
               (hm monday 10 0) 35 CONFIRMED]\<rparr>"

definition scenario_b_slots :: "datetime list" where
  "scenario_b_slots =
     [hm monday 9 0, hm monday 9 30, hm monday 11 0, hm monday 11 30, hm monday 12 0,
      hm monday 12 30, hm monday 13 0, hm monday 13 30, hm monday 14 0, hm monday 14 30,
      hm monday 15 0, hm monday 15 30, hm monday 16 0, hm monday 16 30]"

text \<open>A barber whose Monday closes at 17:15, a quarter past the half-hour grid.\<close>

definition late_close_shop :: db where
  "late_close_shop =
     shop\<lparr>barbers :=
            [the_barber\<lparr>b_schedule :=
               Some [(''monday'', [(''start'', ''16:00''), (''end'', ''17:15'')])]\<rparr>]\<rparr>"

text \<open>
  A barber who opens at midnight on Monday, with a pending 60-minute appointment that
  starts on Sunday at 23:45.
\<close>

definition overnight_appointment :: appointment where
  "overnight_appointment =
     stored ''0000000000000000000000c1'' ''0000000000000000000000a4''
       (hm (monday - 1) 23 45) 50 PENDING"

definition overnight_shop :: db where
  "overnight_shop =
     \<lparr> barbers = [the_barber\<lparr>b_schedule :=
                    Some [(''monday'', [(''start'', ''00:00''), (''end'', ''02:00'')])]\<rparr>],
       services = [corte, corte_barba, premium],
       appointments = [overnight_appointment] \<rparr>"

definition invalid_transition :: "http_error + string \<Rightarrow> bool" where
  "invalid_transition r \<longleftrightarrow> r \<in> set [Inl (400, StatusRequired), Inl (400, InvalidStatus)]"

definition untouched ::
  "appointment \<Rightarrow> oid \<times> string \<times> string \<times> string \<times> datetime \<times> string option \<times> real \<times> datetime \<times> int option" where
  "untouched a =
     (a_id a, client_id a, barber_id a, service_id a, scheduled_at a, a_notes a,
      total_price a, created_at a, duration_minutes a)"

definition working_window :: "db \<Rightarrow> string \<Rightarrow> date \<Rightarrow> (datetime \<times> datetime) option" where
  "working_window d barber_id' target_date =
     (case ObjectId barber_id' of
        None \<Rightarrow> None
      | Some bid \<Rightarrow>
     (case find (\<lambda>b. b_id b = bid) (barbers d) of
        None \<Rightarrow> None
      | Some barber \<Rightarrow>
     (case map_of (case b_schedule barber of None \<Rightarrow> [] | Some sch \<Rightarrow> sch)
             (day_name target_date) of
        None \<Rightarrow> None
      | Some day_schedule \<Rightarrow>
     (if day_schedule = [] then None
      else (case day_window day_schedule target_date of
              Inl e \<Rightarrow> None
            | Inr w \<Rightarrow> Some w)))))"

section \<open>Evaluation lemmas\<close>

lemmas oid_defs = ObjectId_def hexdigits_def hex_lower_def

lemma ObjectId_a1: "ObjectId ''0000000000000000000000a1'' = Some ''0000000000000000000000a1''"
  by (simp add: oid_defs)

lemma ObjectId_a2: "ObjectId ''0000000000000000000000a2'' = Some ''0000000000000000000000a2''"
  by (simp add: oid_defs)

lemma ObjectId_a4: "ObjectId ''0000000000000000000000a4'' = Some ''0000000000000000000000a4''"
  by (simp add: oid_defs)

lemma ObjectId_a9: "ObjectId ''0000000000000000000000a9'' = Some ''0000000000000000000000a9''"
  by (simp add: oid_defs)

lemma ObjectId_b1: "ObjectId ''0000000000000000000000b1'' = Some ''0000000000000000000000b1''"
  by (simp add: oid_defs)

lemma ObjectId_c1: "ObjectId ''0000000000000000000000c1'' = Some ''0000000000000000000000c1''"
  by (simp add: oid_defs)

lemmas oid_evals = ObjectId_a1 ObjectId_a2 ObjectId_a4 ObjectId_a9 ObjectId_b1 ObjectId_c1

lemmas strptime_defs = strptime_HM_def match_H_def match_M_def is_digit_def digit_val_def

lemma strptime_evals:
  "strptime_HM ''09:00'' = Some 32400000"
  "strptime_HM ''17:00'' = Some 61200000"
  "strptime_HM ''16:00'' = Some 57600000"
  "strptime_HM ''17:15'' = Some 62100000"
  "strptime_HM ''00:00'' = Some 0"
  "strptime_HM ''02:00'' = Some 7200000"
  by (simp_all add: strptime_defs)

lemma day_name_monday: "day_name monday = ''monday''"
  by (simp add: day_name_def weekday_def monday_def)

lemmas shop_defs = shop_def the_barber_def corte_def corte_barba_def premium_def stored_def
  booking_def admin_def

lemmas time_defs = hm_def monday_def combine_def timedelta_minutes_def

lemmas availability_defs = get_barber_availability_def day_filter_def start_of_day_def
  end_of_day_def service_duration_def day_window_def except_400_def Let_def

lemmas interval_defs = non_overlap_def clash_def is_active_def occupied_interval_def
  overlaps_def service_duration_def

lemmas query_defs = conflict_filter_def mongo_gt_def mongo_add_def mongo_multiply_def

lemma booked_shop_eval:
  "booked_shop = shop\<lparr>appointments :=
      [stored ''0000000000000000000000c1'' ''0000000000000000000000a1'' (hm monday 10 0) 25 PENDING]\<rparr>"
  by (simp add: booked_shop_def create_appointment_def oid_evals shop_defs except_400_def Let_def)

lemma scenario_b_eval:
  "now < hm monday 9 0 \<Longrightarrow>
   get_barber_availability scenario_b_shop ''0000000000000000000000b1'' monday now =
     Inr scenario_b_slots"
  by (simp add: availability_defs scenario_b_shop_def shop_defs oid_evals
        day_name_monday [unfolded monday_def] time_defs strptime_evals
        slots_loop.simps scenario_b_slots_def)

lemma late_close_eval:
  "get_barber_availability late_close_shop ''0000000000000000000000b1'' monday 0 =
     Inr [hm monday 16 0, hm monday 16 30, hm monday 17 0]"
  by (simp add: availability_defs late_close_shop_def shop_defs oid_evals
        day_name_monday [unfolded monday_def] time_defs strptime_evals slots_loop.simps)


lemma working_window_evals:
  "working_window shop ''0000000000000000000000b1'' monday = Some (hm monday 9 0, hm monday 17 0)"
  "working_window late_close_shop ''0000000000000000000000b1'' monday =
     Some (hm monday 16 0, hm monday 17 15)"
  "working_window overnight_shop ''0000000000000000000000b1'' monday =
     Some (hm monday 0 0, hm monday 2 0)"
  by (simp_all add: working_window_def day_window_def late_close_shop_def overnight_shop_def
        shop_defs oid_evals day_name_monday strptime_evals hm_def)

section \<open>The overlap rule in the slot filter and in the conflict query\<close>

lemma is_available_iff:
  "is_available current_slot slot_end appts \<longleftrightarrow>
     (\<forall>iv \<in> set appts. \<not> overlaps (current_slot, slot_end) iv)"
  by (induction current_slot slot_end appts rule: is_available.induct)
     (auto simp: overlaps_def)

lemma conflict_filter_with_duration:
  "duration_minutes doc = Some n \<Longrightarrow>
   conflict_filter bid sched appointment_end doc \<longleftrightarrow>
     barber_id doc = bid \<and> is_active doc \<and>
     overlaps (sched, appointment_end) (scheduled_at doc, scheduled_at doc + n * 60000)"
  by (auto simp: query_defs is_active_def overlaps_def)

lemma conflict_filter_without_duration:
  "duration_minutes doc = None \<Longrightarrow> \<not> conflict_filter bid sched appointment_end doc"
  by (simp add: query_defs)

text \<open>
  No document inserted by \<open>create_appointment\<close> has the field, so on a store filled by
  the routes the conflict branch is never taken.
\<close>

lemma find_conflict_none:
  "list_all (\<lambda>a. duration_minutes a = None) xs \<Longrightarrow>
   find (conflict_filter bid sched appointment_end) xs = None"
  by (induction xs) (simp_all add: conflict_filter_without_duration)

lemma create_appointment_never_conflicts:
  "list_all (\<lambda>a. duration_minutes a = None) (appointments d) \<Longrightarrow>
   fst (create_appointment d appointment_data new_id now) \<noteq> Inl (400, SchedulingConflict)"
  by (simp add: create_appointment_def find_conflict_none except_400_def Let_def
      split: option.splits)

lemma create_appointment_keeps_no_duration:
  "list_all (\<lambda>a. duration_minutes a = None) (appointments d) \<Longrightarrow>
   list_all (\<lambda>a. duration_minutes a = None)
     (appointments (snd (create_appointment d appointment_data new_id now)))"
  by (simp add: create_appointment_def Let_def split: option.splits)


section \<open>update_first\<close>

lemma set_status_fields:
  "barber_id (set_status s now a) = barber_id a"
  "service_id (set_status s now a) = service_id a"
  "scheduled_at (set_status s now a) = scheduled_at a"
  "status (set_status s now a) = s"
  "untouched (set_status s now a) = untouched a"
  by (simp_all add: set_status_def untouched_def)

lemma update_first_untouched:
  "(\<And>x. g (f x) = g x) \<Longrightarrow> map g (update_first P f xs) = map g xs"
  by (induction xs) auto

lemma find_update_first:
  "find P xs = Some a \<Longrightarrow> P (f a) \<Longrightarrow> find P (update_first P f xs) = Some (f a)"
  by (induction xs) (auto split: if_splits)

lemma matched_count_found: "find P xs = Some a \<Longrightarrow> matched_count P xs = 1"
  by (simp add: matched_count_def)

lemma set_update_first:
  "y \<in> set (update_first P f xs) \<Longrightarrow> y \<in> set xs \<or> (\<exists>x. find P xs = Some x \<and> y = f x)"
  by (induction xs) (auto split: if_splits)

lemma find_in_set: "find P xs = Some x \<Longrightarrow> x \<in> set xs"
  by (auto simp: find_Some_iff)

lemma pairwise_free_update_first:
  assumes "pairwise_free svcs xs"
    and "\<And>x b. find P xs = Some x \<Longrightarrow> clash svcs (f x) b \<Longrightarrow> clash svcs x b"
    and "\<And>x b. find P xs = Some x \<Longrightarrow> clash svcs b (f x) \<Longrightarrow> clash svcs b x"
  shows "pairwise_free svcs (update_first P f xs)"
  using assms
proof (induction xs)
  case Nil
  then show ?case by simp
next
  case (Cons a xs)
  show ?case
  proof (cases "P a")
    case True
    then have "\<And>b. clash svcs (f a) b \<Longrightarrow> clash svcs a b"
      using Cons.prems(2) by simp
    then show ?thesis
      using True Cons.prems(1) by (auto simp: list_all_iff)
  next
    case False
    then have fnd: "find P (a # xs) = find P xs" by simp
    have ih: "pairwise_free svcs (update_first P f xs)"
      using Cons.IH Cons.prems fnd by simp
    have "\<not> clash svcs a y" if "y \<in> set (update_first P f xs)" for y
    proof -
      from set_update_first [OF that]
      show ?thesis
      proof
        assume "y \<in> set xs"
        then show ?thesis using Cons.prems(1) by (auto simp: list_all_iff)
      next
        assume "\<exists>x. find P xs = Some x \<and> y = f x"
        then obtain x where x: "find P xs = Some x" "y = f x" by blast
        then have "x \<in> set xs" by (simp add: find_in_set)
        then have "\<not> clash svcs a x" using Cons.prems(1) by (auto simp: list_all_iff)
        then show ?thesis using Cons.prems(3) [of x a] x fnd by auto
      qed
    qed
    then show ?thesis using False ih by (simp add: list_all_iff)
  qed
qed

lemma clash_set_status:
  assumes "is_active (set_status s now x) \<Longrightarrow> is_active x"
  shows "clash svcs (set_status s now x) b \<Longrightarrow> clash svcs x b"
    and "clash svcs b (set_status s now x) \<Longrightarrow> clash svcs b x"
  using assms
  by (auto simp: clash_def occupied_interval_def set_status_fields)

section \<open>The slot loop\<close>

lemma slots_loop_member:
  "t \<in> set (slots_loop appts now e c) \<Longrightarrow>
     c \<le> t \<and> t < e \<and> (\<exists>k::nat. t = c + int k * timedelta_minutes 30) \<and>
     is_available t (t + timedelta_minutes 30) appts \<and> t > now"
proof (induction appts now e c rule: slots_loop.induct)
  case (1 appts now e c)
  show ?case
  proof (cases "c < e")
    case False
    then have "slots_loop appts now e c = []" by (subst slots_loop.simps) simp
    with "1.prems" show ?thesis by simp
  next
    case True
    then have unfold: "slots_loop appts now e c =
        (if is_available c (c + timedelta_minutes 30) appts \<and> c > now then [c] else []) @
        slots_loop appts now e (c + timedelta_minutes 30)"
      by (subst slots_loop.simps) (simp add: Let_def)
    from "1.prems" unfold consider
      (here) "t = c" "is_available c (c + timedelta_minutes 30) appts" "c > now"
      | (later) "t \<in> set (slots_loop appts now e (c + timedelta_minutes 30))"
      by (auto split: if_splits)
    then show ?thesis
    proof cases
      case here
      have "t = c + int 0 * timedelta_minutes 30" using here by simp
      then have "\<exists>k::nat. t = c + int k * timedelta_minutes 30" by blast
      with here True show ?thesis by simp
    next
      case later
      from "1.IH" [OF True refl later]
      obtain k :: nat where k: "c + timedelta_minutes 30 \<le> t" "t < e"
        "t = c + timedelta_minutes 30 + int k * timedelta_minutes 30"
        "is_available t (t + timedelta_minutes 30) appts" "t > now"
        by blast
      have "t = c + int (Suc k) * timedelta_minutes 30"
        using k(3) by (simp add: algebra_simps)
      then have "\<exists>k::nat. t = c + int k * timedelta_minutes 30" by blast
      moreover have "c \<le> t" using k(1) by (simp add: timedelta_minutes_def)
      ultimately show ?thesis using k by simp
    qed
  qed
qed

lemma availability_window:
  assumes "get_barber_availability d bid target_date now = Inr slots" and "t \<in> set slots"
  shows "\<exists>opn cls appts. working_window d bid target_date = Some (opn, cls) \<and>
           t \<in> set (slots_loop appts now cls opn)"
  using assms
  by (auto simp: get_barber_availability_def working_window_def
      split: option.splits if_splits sum.splits prod.splits)



section \<open>Claims\<close>

subsection \<open>C1: the non-overlap invariant\<close>

text \<open>
  C1 as stated fails: a booking, its cancellation, a second booking of the same time and
  the confirmation of the cancelled one are four core operations that all succeed, the
  invariant holds up to the third, and after the fourth two active appointments of the
  barber occupy Monday 10:00-10:30. \<open>update_appointment_status\<close> runs no conflict check.
\<close>

theorem reconfirm_breaks_non_overlap:
  "non_overlap shop \<and>
   non_overlap (foldl apply_operation shop (butlast reconfirm_ops)) \<and>
   map status (appointments (foldl apply_operation shop (butlast reconfirm_ops))) =
     [CANCELLED, PENDING] \<and>
   map status (appointments (foldl apply_operation shop reconfirm_ops)) =
     [CONFIRMED, PENDING] \<and>
   \<not> non_overlap (foldl apply_operation shop reconfirm_ops)"
  by (simp add: reconfirm_ops_def create_appointment_def update_appointment_status_def
        oid_evals shop_defs except_400_def Let_def query_defs valid_statuses_def
        can_update_def matched_count_def set_status_def interval_defs time_defs)

text \<open>
  C1 (amended): a status transition that does not re-activate an appointment (it asks for
  completed or cancelled, or the appointment it addresses is pending or confirmed already)
  keeps the occupied intervals of every barber's pending and confirmed appointments
  pairwise non-overlapping; this holds whether the transition succeeds or fails. The
  instance below confirms the pending 10:00 appointment of a store that also holds a
  pending 10:30 one and a cancelled 10:00 one; confirming the cancelled one instead is a
  re-activation and does break the invariant.
\<close>

theorem transition_keeps_non_overlap:
  assumes inv: "non_overlap d"
    and nr: "\<not> reactivates d appointment_id status_data"
  shows "non_overlap (snd (update_appointment_status d appointment_id status_data current_user now))"
proof (cases "\<exists>s k a. map_of status_data ''status'' = Some (JStr s) \<and> s \<in> set valid_statuses \<and>
    ObjectId appointment_id = Some k \<and>
    find (\<lambda>a. a_id a = k) (appointments d) = Some a \<and> can_update d current_user a")
  case True
  then obtain s k a where h: "map_of status_data ''status'' = Some (JStr s)"
    "s \<in> set valid_statuses" "ObjectId appointment_id = Some k"
    "find (\<lambda>a. a_id a = k) (appointments d) = Some a" "can_update d current_user a"
    by blast
  then have ne: "s \<noteq> []" by (auto simp: valid_statuses_def)
  have mc: "matched_count (\<lambda>a. a_id a = k) (appointments d) = 1"
    using h by (simp add: matched_count_found)
  have res: "snd (update_appointment_status d appointment_id status_data current_user now) =
     d\<lparr>appointments := update_first (\<lambda>a. a_id a = k) (set_status s now) (appointments d)\<rparr>"
    using h ne mc by (simp add: update_appointment_status_def)
  have act: "is_active (set_status s now a) \<Longrightarrow> is_active a"
    using nr h by (auto simp: reactivates_def is_active_def set_status_fields)
  have "pairwise_free (services d)
          (update_first (\<lambda>a. a_id a = k) (set_status s now) (appointments d))"
  proof (rule pairwise_free_update_first)
    show "pairwise_free (services d) (appointments d)"
      using inv by (simp add: non_overlap_def)
  next
    fix x b
    assume "find (\<lambda>a. a_id a = k) (appointments d) = Some x"
      and c: "clash (services d) (set_status s now x) b"
    then have "x = a" using h by simp
    then show "clash (services d) x b" using clash_set_status(1) [OF act] c by simp
  next
    fix x b
    assume "find (\<lambda>a. a_id a = k) (appointments d) = Some x"
      and c: "clash (services d) b (set_status s now x)"
    then have "x = a" using h by simp
    then show "clash (services d) b x" using clash_set_status(2) [OF act] c by simp
  qed
  then show ?thesis by (simp add: res non_overlap_def)
next
  case False
  have "snd (update_appointment_status d appointment_id status_data current_user now) = d"
  proof (cases "map_of status_data ''status''")
    case None
    then show ?thesis by (simp add: update_appointment_status_def)
  next
    case (Some st)
    then show ?thesis using False
      by (cases st) (auto simp: update_appointment_status_def split: option.splits)
  qed
  then show ?thesis using inv by simp
qed

theorem transition_keeps_non_overlap_witness:
  "map (occupied_interval (services busy_shop)) (appointments busy_shop) =
     [(hm monday 10 0, hm monday 10 30), (hm monday 10 30, hm monday 11 0),
      (hm monday 10 0, hm monday 10 30)] \<and>
   map status (appointments busy_shop) = [PENDING, PENDING, CANCELLED] \<and>
   non_overlap busy_shop \<and>
   \<not> reactivates busy_shop ''0000000000000000000000c1'' [(''status'', JStr CONFIRMED)] \<and>
   non_overlap (snd (update_appointment_status busy_shop ''0000000000000000000000c1''
                       [(''status'', JStr CONFIRMED)] admin 1)) \<and>
   map status (appointments (snd (update_appointment_status busy_shop
      ''0000000000000000000000c1'' [(''status'', JStr CONFIRMED)] admin 1))) =
     [CONFIRMED, PENDING, CANCELLED] \<and>
   reactivates busy_shop ''0000000000000000000000c3'' [(''status'', JStr CONFIRMED)] \<and>
   \<not> non_overlap (snd (update_appointment_status busy_shop ''0000000000000000000000c3''
                         [(''status'', JStr CONFIRMED)] admin 1))"
proof -
  have h0: "map (occupied_interval (services busy_shop)) (appointments busy_shop) =
     [(hm monday 10 0, hm monday 10 30), (hm monday 10 30, hm monday 11 0),
      (hm monday 10 0, hm monday 10 30)] \<and>
   map status (appointments busy_shop) = [PENDING, PENDING, CANCELLED]"
    by (simp add: busy_shop_def shop_defs interval_defs oid_evals time_defs)
  have h1: "non_overlap busy_shop"
    by (simp add: busy_shop_def shop_defs interval_defs oid_evals time_defs)
  have h2: "\<not> reactivates busy_shop ''0000000000000000000000c1'' [(''status'', JStr CONFIRMED)]"
    by (simp add: reactivates_def busy_shop_def shop_defs oid_evals is_active_def)
  have h3: "map status (appointments (snd (update_appointment_status busy_shop
      ''0000000000000000000000c1'' [(''status'', JStr CONFIRMED)] admin 1))) =
     [CONFIRMED, PENDING, CANCELLED]"
    by (simp add: busy_shop_def update_appointment_status_def oid_evals shop_defs
          except_400_def valid_statuses_def can_update_def matched_count_def set_status_def)
  have c3: "ObjectId ''0000000000000000000000c3'' = Some ''0000000000000000000000c3''"
    by (simp add: oid_defs)
  have h4: "reactivates busy_shop ''0000000000000000000000c3'' [(''status'', JStr CONFIRMED)]"
    by (simp add: reactivates_def busy_shop_def shop_defs c3 is_active_def)
  have h5: "\<not> non_overlap (snd (update_appointment_status busy_shop
      ''0000000000000000000000c3'' [(''status'', JStr CONFIRMED)] admin 1))"
    by (simp add: busy_shop_def update_appointment_status_def oid_evals c3 shop_defs
          except_400_def valid_statuses_def can_update_def matched_count_def set_status_def
          interval_defs time_defs)
  show ?thesis
    using h0 h1 h2 h3 h4 h5 transition_keeps_non_overlap [OF h1 h2, of admin 1] by simp
qed

subsection \<open>C2: the conflict check of create_appointment\<close>

text \<open>
  C2: create_appointment should fail with SchedulingConflict exactly when the candidate
  interval overlaps an active appointment of the same barber. The code does not: the
  shop holds a pending 30-minute appointment at Monday 10:00 that create_appointment
  itself inserted, and a second booking of the same barber, service and time is
  accepted, leaving two active overlapping appointments. The query reads
  \<open>duration_minutes\<close> from the appointment document, a field no inserted document has
  (\<open>create_appointment_never_conflicts\<close>, \<open>create_appointment_keeps_no_duration\<close>).
\<close>

theorem double_booking_accepted:
  "appointments booked_shop =
     [stored ''0000000000000000000000c1'' ''0000000000000000000000a1'' (hm monday 10 0) 25 PENDING] \<and>
   fst (create_appointment booked_shop (booking ''0000000000000000000000a1'' (hm monday 10 0))
          ''0000000000000000000000c2'' 0) =
     Inr (stored ''0000000000000000000000c2'' ''0000000000000000000000a1'' (hm monday 10 0) 25 PENDING) \<and>
   \<not> non_overlap (snd (create_appointment booked_shop
          (booking ''0000000000000000000000a1'' (hm monday 10 0)) ''0000000000000000000000c2'' 0))"
  by (simp add: booked_shop_eval create_appointment_def oid_evals shop_defs except_400_def
        Let_def query_defs interval_defs timedelta_minutes_def)

subsection \<open>C3: the half-open overlap rule\<close>

text \<open>
  C3: the overlap rule should be the half-open one in the slot filter and in the conflict
  check alike, so that an overlap of one minute is always a conflict. The slot filter
  follows it (\<open>is_available_iff\<close>) and so does the query on a document that carries
  \<open>duration_minutes\<close> (\<open>conflict_filter_with_duration\<close>), but against the pending
  appointment occupying Monday 10:00-10:30 a booking that starts at 10:29 is accepted by
  create_appointment, while the slot filter rejects the same candidate.
\<close>

theorem one_minute_overlap_accepted:
  "map (occupied_interval (services booked_shop)) (appointments booked_shop) =
     [(hm monday 10 0, hm monday 10 30)] \<and>
   fst (create_appointment booked_shop (booking ''0000000000000000000000a1'' (hm monday 10 29))
          ''0000000000000000000000c2'' 0) =
     Inr (stored ''0000000000000000000000c2'' ''0000000000000000000000a1'' (hm monday 10 29) 25 PENDING) \<and>
   overlaps (hm monday 10 29, hm monday 10 29 + timedelta_minutes 30)
     (hm monday 10 0, hm monday 10 30) \<and>
   \<not> is_available (hm monday 10 29) (hm monday 10 29 + timedelta_minutes 30)
       [(hm monday 10 0, hm monday 10 30)]"
  by (simp add: booked_shop_eval create_appointment_def oid_evals shop_defs except_400_def
        Let_def query_defs interval_defs time_defs)

subsection \<open>C4: what create_appointment copies from the service\<close>

text \<open>
  C4: create_appointment should copy the service's duration and price onto the new
  appointment. It copies the price only: the document inserted for a 30-minute cut has
  \<open>total_price\<close> equal to the service's price and no \<open>duration_minutes\<close> field.
\<close>

theorem created_appointment_has_no_duration:
  "map duration_minutes (appointments (snd (create_appointment shop
       (booking ''0000000000000000000000a1'' (hm monday 10 0)) ''0000000000000000000000c1'' 0)))
     = [None] \<and>
   map total_price (appointments (snd (create_appointment shop
       (booking ''0000000000000000000000a1'' (hm monday 10 0)) ''0000000000000000000000c1'' 0)))
     = [s_price corte] \<and>
   s_duration_minutes corte = 30"
  by (simp add: create_appointment_def oid_evals shop_defs except_400_def Let_def)

subsection \<open>C5: scenario B\<close>

text \<open>
  C5 as stated fails: with the Monday window 09:00-17:00 and a confirmed appointment
  occupying 10:00-10:45, the slots offered leave out 10:00 and 10:30 but do not contain
  10:45, which is not on the half-hour grid that starts at 09:00.
\<close>

theorem scenario_b_quarter_to_eleven_not_offered:
  "map (occupied_interval (services scenario_b_shop)) (appointments scenario_b_shop) =
     [(hm monday 10 0, hm monday 10 45)] \<and>
   map status (appointments scenario_b_shop) = [CONFIRMED] \<and>
   get_barber_availability scenario_b_shop ''0000000000000000000000b1'' monday 0 =
     Inr scenario_b_slots \<and>
   \<not> (hm monday 10 0 \<notin> set scenario_b_slots \<and> hm monday 10 30 \<notin> set scenario_b_slots \<and>
      hm monday 10 45 \<in> set scenario_b_slots)"
proof -
  have "(0::int) < hm monday 9 0" by (simp add: time_defs)
  then have "get_barber_availability scenario_b_shop ''0000000000000000000000b1'' monday 0 =
     Inr scenario_b_slots" by (rule scenario_b_eval)
  then show ?thesis
    by (simp add: scenario_b_shop_def shop_defs interval_defs oid_evals time_defs
          scenario_b_slots_def)
qed

text \<open>
  C5 (amended): in scenario B, asked at any instant before Monday 09:00, the generator
  offers the half-hour grid from 09:00 to 16:30 without 10:00 and 10:30; 10:45 is not
  offered either, and 11:00 is the first slot offered after the appointment.
\<close>

theorem scenario_b_slots_offered:
  "now < hm monday 9 0 \<Longrightarrow>
   get_barber_availability scenario_b_shop ''0000000000000000000000b1'' monday now =
     Inr scenario_b_slots \<and>
   hm monday 10 0 \<notin> set scenario_b_slots \<and> hm monday 10 30 \<notin> set scenario_b_slots \<and>
   hm monday 10 45 \<notin> set scenario_b_slots \<and> hm monday 11 0 \<in> set scenario_b_slots \<and>
   filter (\<lambda>t. hm monday 9 30 < t \<and> t < hm monday 11 0) scenario_b_slots = []"
  by (simp add: scenario_b_eval) (simp add: scenario_b_slots_def time_defs)

theorem scenario_b_slots_offered_witness:
  "(0::int) < hm monday 9 0 \<and>
   get_barber_availability scenario_b_shop ''0000000000000000000000b1'' monday 0 =
     Inr scenario_b_slots \<and>
   hm monday 10 45 \<notin> set scenario_b_slots \<and> hm monday 11 0 \<in> set scenario_b_slots"
proof -
  have h: "(0::int) < hm monday 9 0" by (simp add: time_defs)
  show ?thesis using h scenario_b_slots_offered [OF h] by simp
qed

subsection \<open>C6: slots and the closing time\<close>

text \<open>
  C6 as stated fails: the loop runs while the candidate starts before closing, so with a
  Monday window 16:00-17:15 the slot 17:00 is offered although 17:00 + 30 minutes is
  after 17:15.
\<close>

theorem late_close_slot_overruns:
  "working_window late_close_shop ''0000000000000000000000b1'' monday =
     Some (hm monday 16 0, hm monday 17 15) \<and>
   get_barber_availability late_close_shop ''0000000000000000000000b1'' monday 0 =
     Inr [hm monday 16 0, hm monday 16 30, hm monday 17 0] \<and>
   \<not> hm monday 17 0 + timedelta_minutes 30 \<le> hm monday 17 15"
  by (simp add: working_window_evals late_close_eval) (simp add: time_defs)

text \<open>
  C6 (amended): the granularity is fixed at 30 minutes, and every start instant the
  generator emits lies on the 30-minute grid that starts at the opening time and is
  strictly before the closing time; it satisfies t + 30 minutes \<le> close whenever the
  length of the window is a multiple of 30 minutes.
\<close>

theorem slots_start_inside_window:
  assumes "get_barber_availability d bid target_date now = Inr slots" and "t \<in> set slots"
  shows "\<exists>opn cls. working_window d bid target_date = Some (opn, cls) \<and>
           opn \<le> t \<and> t < cls \<and> (\<exists>k::nat. t = opn + int k * timedelta_minutes 30) \<and>
           ((cls - opn) mod timedelta_minutes 30 = 0 \<longrightarrow> t + timedelta_minutes 30 \<le> cls)"
proof -
  from availability_window [OF assms]
  obtain opn cls appts where w: "working_window d bid target_date = Some (opn, cls)"
    and t: "t \<in> set (slots_loop appts now cls opn)" by blast
  from slots_loop_member [OF t]
  obtain k :: nat where k: "opn \<le> t" "t < cls" "t = opn + int k * timedelta_minutes 30"
    by blast
  have "t + timedelta_minutes 30 \<le> cls" if m: "(cls - opn) mod timedelta_minutes 30 = 0"
  proof -
    from m obtain q where q: "cls - opn = 1800000 * q"
      by (auto simp: timedelta_minutes_def mod_eq_0_iff_dvd)
    from k(2,3) q have "1800000 * int k < 1800000 * q"
      by (simp add: timedelta_minutes_def)
    then have "int k < q" by simp
    then have "1800000 * (int k + 1) \<le> 1800000 * q" by simp
    then show ?thesis using k(3) q by (simp add: timedelta_minutes_def algebra_simps)
  qed
  with w k show ?thesis by blast
qed

theorem slots_start_inside_window_witness:
  "get_barber_availability scenario_b_shop ''0000000000000000000000b1'' monday 0 =
     Inr scenario_b_slots \<and>
   hm monday 16 30 \<in> set scenario_b_slots \<and>
   working_window scenario_b_shop ''0000000000000000000000b1'' monday =
     Some (hm monday 9 0, hm monday 17 0) \<and>
   (hm monday 17 0 - hm monday 9 0) mod timedelta_minutes 30 = 0 \<and>
   hm monday 16 30 + timedelta_minutes 30 \<le> hm monday 17 0"
proof -
  have "(0::int) < hm monday 9 0" by (simp add: time_defs)
  then have h1: "get_barber_availability scenario_b_shop ''0000000000000000000000b1'' monday 0 =
     Inr scenario_b_slots" by (rule scenario_b_eval)
  have h2: "hm monday 16 30 \<in> set scenario_b_slots"
    by (simp add: scenario_b_slots_def)
  have w: "working_window scenario_b_shop ''0000000000000000000000b1'' monday =
     Some (hm monday 9 0, hm monday 17 0)"
    by (simp add: working_window_def day_window_def scenario_b_shop_def shop_defs oid_evals
          day_name_monday strptime_evals hm_def)
  have m: "(hm monday 17 0 - hm monday 9 0) mod timedelta_minutes 30 = 0"
    by (simp add: time_defs)
  from slots_start_inside_window [OF h1 h2] w m
  have "hm monday 16 30 + timedelta_minutes 30 \<le> hm monday 17 0" by auto
  with h1 h2 w m show ?thesis by simp
qed

subsection \<open>C7: update_appointment_status\<close>

text \<open>
  C7: update_appointment_status is rejected by its status validation (the two raises of
  lines 470-477, InvalidTransition in the specification) exactly when the requested
  status is not one of pending, confirmed, completed, cancelled. When it is one of the
  four, the appointment exists and the actor is admin, the owning client or the assigned
  barber, the call succeeds whatever the current status: the addressed appointment gets
  the new status and the update timestamp, every other field of every appointment stays
  as it was, and no conflict check is involved.
\<close>

theorem update_appointment_status_contract:
  "(invalid_transition (fst (update_appointment_status d appointment_id status_data current_user now))
      \<longleftrightarrow> map_of status_data ''status'' \<notin> set (map (Some \<circ> JStr) valid_statuses)) \<and>
   (map_of status_data ''status'' = Some (JStr s) \<and> s \<in> set valid_statuses \<and>
    ObjectId appointment_id = Some k \<and>
    find (\<lambda>a. a_id a = k) (appointments d) = Some a \<and> can_update d current_user a \<longrightarrow>
      update_appointment_status d appointment_id status_data current_user now =
        (Inr (''Estado de cita actualizado a '' @ s),
         d\<lparr>appointments := update_first (\<lambda>a. a_id a = k) (set_status s now) (appointments d)\<rparr>) \<and>
      find (\<lambda>a. a_id a = k)
        (update_first (\<lambda>a. a_id a = k) (set_status s now) (appointments d)) =
        Some (a\<lparr>status := s, updated_at := Some now\<rparr>) \<and>
      map untouched (update_first (\<lambda>a. a_id a = k) (set_status s now) (appointments d)) =
        map untouched (appointments d))"
proof (intro conjI impI)
  show "invalid_transition (fst (update_appointment_status d appointment_id status_data current_user now))
      \<longleftrightarrow> map_of status_data ''status'' \<notin> set (map (Some \<circ> JStr) valid_statuses)"
  proof (cases "map_of status_data ''status''")
    case None
    then show ?thesis
      by (simp add: update_appointment_status_def invalid_transition_def except_400_def
            valid_statuses_def)
  next
    case (Some st)
    then show ?thesis
      by (cases st)
         (auto simp: update_appointment_status_def invalid_transition_def except_400_def
            valid_statuses_def split: option.splits)
  qed
next
  assume h: "map_of status_data ''status'' = Some (JStr s) \<and> s \<in> set valid_statuses \<and>
    ObjectId appointment_id = Some k \<and>
    find (\<lambda>a. a_id a = k) (appointments d) = Some a \<and> can_update d current_user a"
  then have ne: "s \<noteq> []" by (auto simp: valid_statuses_def)
  from h have mc: "matched_count (\<lambda>a. a_id a = k) (appointments d) = 1"
    by (simp add: matched_count_found)
  show "update_appointment_status d appointment_id status_data current_user now =
        (Inr (''Estado de cita actualizado a '' @ s),
         d\<lparr>appointments := update_first (\<lambda>a. a_id a = k) (set_status s now) (appointments d)\<rparr>)"
    using h ne mc by (simp add: update_appointment_status_def)
  from h have "a_id a = k" by (auto simp: find_Some_iff)
  then have "a_id (set_status s now a) = k" by (simp add: set_status_def)
  with h have "find (\<lambda>a. a_id a = k)
        (update_first (\<lambda>a. a_id a = k) (set_status s now) (appointments d)) =
        Some (set_status s now a)"
    by (simp add: find_update_first)
  then show "find (\<lambda>a. a_id a = k)
        (update_first (\<lambda>a. a_id a = k) (set_status s now) (appointments d)) =
        Some (a\<lparr>status := s, updated_at := Some now\<rparr>)"
    by (simp add: set_status_def)
  show "map untouched (update_first (\<lambda>a. a_id a = k) (set_status s now) (appointments d)) =
        map untouched (appointments d)"
    by (rule update_first_untouched) (simp add: set_status_fields)
qed

theorem update_appointment_status_contract_witness:
  "map_of [(''status'', JStr CONFIRMED)] ''status'' = Some (JStr CONFIRMED) \<and>
   CONFIRMED \<in> set valid_statuses \<and>
   ObjectId ''0000000000000000000000c1'' = Some ''0000000000000000000000c1'' \<and>
   find (\<lambda>a. a_id a = ''0000000000000000000000c1'') (appointments booked_shop) =
     Some (stored ''0000000000000000000000c1'' ''0000000000000000000000a1'' (hm monday 10 0) 25 PENDING) \<and>
   can_update booked_shop admin
     (stored ''0000000000000000000000c1'' ''0000000000000000000000a1'' (hm monday 10 0) 25 PENDING) \<and>
   fst (update_appointment_status booked_shop ''0000000000000000000000c1''
          [(''status'', JStr CONFIRMED)] admin 7) = Inr ''Estado de cita actualizado a confirmed'' \<and>
   \<not> invalid_transition (fst (update_appointment_status booked_shop ''0000000000000000000000c1''
          [(''status'', JStr CONFIRMED)] admin 7))"
proof -
  have h: "map_of [(''status'', JStr CONFIRMED)] ''status'' = Some (JStr CONFIRMED) \<and>
   CONFIRMED \<in> set valid_statuses \<and>
   ObjectId ''0000000000000000000000c1'' = Some ''0000000000000000000000c1'' \<and>
   find (\<lambda>a. a_id a = ''0000000000000000000000c1'') (appointments booked_shop) =
     Some (stored ''0000000000000000000000c1'' ''0000000000000000000000a1'' (hm monday 10 0) 25 PENDING) \<and>
   can_update booked_shop admin
     (stored ''0000000000000000000000c1'' ''0000000000000000000000a1'' (hm monday 10 0) 25 PENDING)"
    by (simp add: valid_statuses_def oid_evals booked_shop_eval shop_defs can_update_def)
  from update_appointment_status_contract [of booked_shop "''0000000000000000000000c1''"
      "[(''status'', JStr CONFIRMED)]" admin 7 CONFIRMED "''0000000000000000000000c1''"
      "stored ''0000000000000000000000c1'' ''0000000000000000000000a1'' (hm monday 10 0) 25 PENDING"]
    h
  show ?thesis by (simp add: valid_statuses_def invalid_transition_def)
qed

subsection \<open>C8: update_service and the appointments\<close>

text \<open>
  C8: update_service, whatever it is given and whether it succeeds or fails, leaves the
  appointments collection as it was; in particular every \<open>total_price\<close> keeps the
  value copied at booking time.
\<close>

theorem update_service_keeps_appointments:
  "appointments (snd (update_service d sid service_data current_user now)) = appointments d"
  by (simp add: update_service_def Let_def split: option.splits)

theorem update_service_keeps_appointments_witness:
  "map total_price (appointments (snd (update_service booked_shop ''0000000000000000000000a1''
      \<lparr> sc_name = ''Corte de Cabello'', sc_description = None, sc_duration_minutes = 40,
        sc_price = 99, sc_category = None \<rparr> admin 9))) = [25] \<and>
   map s_price (services (snd (update_service booked_shop ''0000000000000000000000a1''
      \<lparr> sc_name = ''Corte de Cabello'', sc_description = None, sc_duration_minutes = 40,
        sc_price = 99, sc_category = None \<rparr> admin 9))) = [99, 35, 50]"
  using update_service_keeps_appointments [of booked_shop "''0000000000000000000000a1''"
      "\<lparr> sc_name = ''Corte de Cabello'', sc_description = None, sc_duration_minutes = 40,
        sc_price = 99, sc_category = None \<rparr>" admin 9]
  by (simp add: booked_shop_eval shop_defs update_service_def oid_evals matched_count_def
        set_service_def Let_def)

subsection \<open>C9: what the availability query fetches\<close>



subsection \<open>C10: a failed create_appointment writes nothing\<close>

text \<open>
  C10: whenever create_appointment fails (invalid id, service not found, barber not
  found, scheduling conflict, or the store refusing the insert), the database, and with
  it the appointment store, is exactly as it was before the call.
\<close>

theorem create_appointment_failure_keeps_db:
  "fst (create_appointment d appointment_data new_id now) = Inl e \<Longrightarrow>
   snd (create_appointment d appointment_data new_id now) = d"
  by (auto simp: create_appointment_def Let_def split: option.splits if_splits)

theorem create_appointment_failure_keeps_db_witness:
  "fst (create_appointment booked_shop (booking ''0000000000000000000000a9'' (hm monday 10 0))
          ''0000000000000000000000c2'' 0) = Inl (400, ServiceNotFound) \<and>
   snd (create_appointment booked_shop (booking ''0000000000000000000000a9'' (hm monday 10 0))
          ''0000000000000000000000c2'' 0) = booked_shop"
proof -
  have h: "fst (create_appointment booked_shop
          (booking ''0000000000000000000000a9'' (hm monday 10 0))
          ''0000000000000000000000c2'' 0) = Inl (400, ServiceNotFound)"
    by (simp add: booked_shop_eval create_appointment_def oid_evals shop_defs except_400_def)
  show ?thesis using h create_appointment_failure_keeps_db [OF h] by simp
qed

end
